theory Spec2Isabelle
  imports Main
begin

section \<open>Strings\<close>

text \<open>
  A JavaScript string is modelled as a \<open>string\<close> (a list of \<open>char\<close>), one \<open>char\<close> per
  code unit, for the code units below 256. \<open>String.prototype.toUpperCase\<close> maps \<open>a\<close>..\<open>z\<close>
  to \<open>A\<close>..\<open>Z\<close> and leaves every other unit below 128 as it is; a unit from 128 on is
  kept as it is here, where JavaScript gives another unit from 128 on, or \<open>SS\<close> for U+00DF.
  \<open>String.prototype.trim\<close> strips TAB, LF, VT, FF, CR, SPACE and U+00A0 from both ends;
  these are also the units that \<open>\s\<close> matches in a regular expression.
\<close>

definition upper_char :: "char \<Rightarrow> char" where
  "upper_char c =
     (case map_of (zip ''abcdefghijklmnopqrstuvwxyz'' ''ABCDEFGHIJKLMNOPQRSTUVWXYZ'') c of
        Some u \<Rightarrow> u
      | None \<Rightarrow> c)"

definition toUpperCase :: "string \<Rightarrow> string" where
  "toUpperCase s = map upper_char s"

definition isWhiteSpace :: "char \<Rightarrow> bool" where
  "isWhiteSpace c =
     (c \<in> set [CHR 0x09, CHR 0x0A, CHR 0x0B, CHR 0x0C, CHR 0x0D, CHR 0x20, CHR 0xA0])"

definition trim :: "string \<Rightarrow> string" where
  "trim s = rev (dropWhile isWhiteSpace (rev (dropWhile isWhiteSpace s)))"

text \<open>\<open>s.startsWith(p)\<close> and \<open>s.includes(p)\<close>.\<close>

fun startsWith :: "string \<Rightarrow> string \<Rightarrow> bool" where
  "startsWith s [] = True"
| "startsWith [] (p # ps) = False"
| "startsWith (c # cs) (p # ps) = (c = p \<and> startsWith cs ps)"

fun includes_str :: "string \<Rightarrow> string \<Rightarrow> bool" where
  "includes_str [] p = (p = [])"
| "includes_str (c # cs) p = (startsWith (c # cs) p \<or> includes_str cs p)"

section \<open>Regular expressions of containsDangerousSubquery\<close>

text \<open>
  The three patterns of \<open>containsDangerousSubquery\<close> have the shape
  \<open>/L0.*L1.*L2/i\<close>: literal segments separated by \<open>.*\<close>, matched without regard to
  case, where \<open>.\<close> is any code unit but a line terminator (LF, CR below 128). Such a
  pattern is kept as the list of its literal segments. \<open>match_gaps ps s\<close> matches
  \<open>.*p1.*p2...\<close> anchored at the start of \<open>s\<close>; \<open>regex_test\<close> is
  \<open>RegExp.prototype.test\<close>, which searches every start position.
\<close>

definition lineTerminator :: "char \<Rightarrow> bool" where
  "lineTerminator c = (c = CHR 0x0A \<or> c = CHR 0x0D)"

fun startsWith_ci :: "string \<Rightarrow> string \<Rightarrow> bool" where
  "startsWith_ci s [] = True"
| "startsWith_ci [] (p # ps) = False"
| "startsWith_ci (c # cs) (p # ps) = (upper_char c = upper_char p \<and> startsWith_ci cs ps)"

fun match_gaps :: "string list \<Rightarrow> string \<Rightarrow> bool" where
  "match_gaps [] s = True"
| "match_gaps (p # ps) [] = (p = [] \<and> match_gaps ps [])"
| "match_gaps (p # ps) (c # cs) =
     ((startsWith_ci (c # cs) p \<and> match_gaps ps (drop (length p) (c # cs)))
      \<or> (\<not> lineTerminator c \<and> match_gaps (p # ps) cs))"

fun regex_test :: "string list \<Rightarrow> string \<Rightarrow> bool" where
  "regex_test [] s = True"
| "regex_test (p # ps) [] = (p = [] \<and> match_gaps ps [])"
| "regex_test (p # ps) (c # cs) =
     ((startsWith_ci (c # cs) p \<and> match_gaps ps (drop (length p) (c # cs)))
      \<or> regex_test (p # ps) cs)"

section \<open>validateQuerySafety\<close>

text \<open>
  The validator throws an \<open>Error\<close> whose message names the violation. The model keeps
  the kind of each throw as a constructor and the text as \<open>message\<close>. The other
  constructors are the errors of the rest of the pipeline: the timer of
  \<open>executeWithTimeout\<close> (with the text of the configured milliseconds), an error thrown by
  a library (the database driver, the formatter, the language model's client), the
  \<open>TypeError\<close> of reading a property of \<open>undefined\<close> or \<open>null\<close>, the error
  \<open>estimateQueryCost\<close> rethrows, and the errors of the language model service, whose
  whole message is kept.
\<close>

datatype error =
    DangerousOperation string
  | SystemTableAccess string
  | FileSystemAccess
  | DangerousFunction string
  | NotASelect
  | DangerousSubquery
  | QueryTimeout string
  | DriverError string
  | TypeError string
  | CostEstimationFailed string
  | GenerationFailed string

definition dangerousKeywords :: "string list" where
  "dangerousKeywords =
     [''DROP'', ''DELETE'', ''UPDATE'', ''INSERT'', ''ALTER'', ''CREATE'',
      ''TRUNCATE'', ''GRANT'', ''REVOKE'', ''EXEC'', ''EXECUTE'']"

definition systemTables :: "string list" where
  "systemTables = [''pg_'', ''information_schema'', ''sys'', ''mysql'', ''performance_schema'']"

definition dangerousFunctions :: "string list" where
  "dangerousFunctions = [''pg_read_file'', ''pg_ls_dir'', ''lo_import'', ''lo_export'']"

definition dangerousPatterns :: "string list list" where
  "dangerousPatterns =
     [[''SELECT'', ''FROM'', ''pg_''],
      [''SELECT'', ''FROM'', ''information_schema''],
      [''SELECT'', ''FROM'', ''sys.'']]"

definition containsDangerousSubquery :: "string \<Rightarrow> bool" where
  "containsDangerousSubquery sql = list_ex (\<lambda>pattern. regex_test pattern sql) dangerousPatterns"

definition validateQuerySafety :: "string \<Rightarrow> error + unit" where
  "validateQuerySafety sql =
     (let upperSQL = trim (toUpperCase sql) in
      case find (includes_str upperSQL) dangerousKeywords of
        Some keyword \<Rightarrow> Inl (DangerousOperation keyword)
      | None \<Rightarrow>
     (case find (includes_str upperSQL) systemTables of
        Some table \<Rightarrow> Inl (SystemTableAccess table)
      | None \<Rightarrow>
      if includes_str upperSQL ''COPY'' \<or> includes_str upperSQL (CHR 0x5C # ''COPY'')
      then Inl FileSystemAccess
      else
     (case find (includes_str upperSQL) dangerousFunctions of
        Some func \<Rightarrow> Inl (DangerousFunction func)
      | None \<Rightarrow>
      if \<not> startsWith upperSQL ''SELECT'' then Inl NotASelect
      else if containsDangerousSubquery sql then Inl DangerousSubquery
      else Inr ())))"

text \<open>\<open>error.message\<close>, the text each \<open>Error\<close> is constructed with.\<close>

fun message :: "error \<Rightarrow> string" where
  "message (DangerousOperation keyword) =
     ''Dangerous operation detected: '' @ keyword @ '' statements are not allowed''"
| "message (SystemTableAccess table) =
     ''Access to system table detected: '' @ table @ '' access is not allowed''"
| "message FileSystemAccess = ''File system access operations are not allowed''"
| "message (DangerousFunction func) =
     ''Dangerous function call detected: '' @ func @ '' is not allowed''"
| "message NotASelect = ''Only SELECT queries are allowed''"
| "message DangerousSubquery = ''Query contains potentially dangerous subqueries''"
| "message (QueryTimeout ms) = ''Query timeout after '' @ ms @ ''ms''"
| "message (DriverError m) = m"
| "message (TypeError m) = m"
| "message (CostEstimationFailed m) = ''Cost estimation failed: '' @ m"
| "message (GenerationFailed m) = m"

section \<open>Configuration\<close>

text \<open>
  The constructor reads \<open>parseInt(process.env.X) || default\<close>. The value of \<open>parseInt\<close>
  is given as an \<open>int option\<close>, \<open>None\<close> for \<open>NaN\<close>; \<open>NaN\<close> and \<open>0\<close> are falsy and give
  the default.
\<close>

record config =
  maxResultRows :: int
  queryTimeout :: int
  sandboxMode :: bool

record process_env =
  MAX_RESULT_ROWS :: "int option"
  QUERY_TIMEOUT_MS :: "int option"
  SANDBOX_MODE :: "string option"

definition parseInt_or :: "int option \<Rightarrow> int \<Rightarrow> int" where
  "parseInt_or parsed dflt = (case parsed of None \<Rightarrow> dflt | Some n \<Rightarrow> if n = 0 then dflt else n)"

definition constructor :: "process_env \<Rightarrow> config" where
  "constructor env =
     \<lparr> maxResultRows = parseInt_or (MAX_RESULT_ROWS env) 10000,
       queryTimeout = parseInt_or (QUERY_TIMEOUT_MS env) 30000,
       sandboxMode = (SANDBOX_MODE env = Some ''true'') \<rparr>"

section \<open>The database, the formatter and the clock\<close>

text \<open>
  An awaited call of the driver resolves, rejects with an \<open>Error\<close> (its message is kept),
  or is still pending when the timer of \<open>executeWithTimeout\<close> fires. The pool is a
  counter of the clients checked out and not yet released, together with the history of
  what happened: the clients acquired and released, the statements handed to
  \<open>client.query\<close>, and the runs of the safety check. Every answer of the outside world
  (driver, formatter, clock, language model) may depend on the history so far.

  A cell of a result row is a JSON value as the driver hands it over; a number is kept as
  its literal text, since no arithmetic on it is modelled. A row is an object, given as the
  list of its members, with distinct keys.
\<close>

datatype 'a outcome = Completes 'a | Throws string | TimesOut

datatype json =
    JUndefined
  | JNull
  | JBool bool
  | JNum string
  | JStr string
  | JArr "json list"
  | JObj "(string \<times> json) list"

datatype field = Field (name: string) (dataTypeID: int) (nullable: bool)

datatype column = Column string int bool

type_synonym row = "(string \<times> json) list"

record query_result =
  rows :: "row list"
  result_fields :: "field list option"
  rowCount :: int

datatype event = Validated string | Acquired | Sent string | Released

record db_state =
  held :: nat
  log :: "event list"

text \<open>
  \<open>findRelevantSchema\<close> stands for steps 1 and 2 of \<open>processQuery\<close> (initialization,
  embedding, schema lookup in the vector database) and gives the error one of them throws,
  if any. \<open>generateContent\<close> is the answer of the language model to the prompt built from
  the question and the language: its text, or the error of the client. \<open>numberText\<close> is
  the text JavaScript prints for an integer outside the safe range (see
  \<open>number_to_string\<close>).
\<close>

record world =
  connect :: "event list \<Rightarrow> unit outcome"
  query :: "event list \<Rightarrow> string \<Rightarrow> query_result outcome"
  format :: "string \<Rightarrow> error + string"
  now :: "event list \<Rightarrow> int"
  toISOString :: "event list \<Rightarrow> string"
  numberText :: "int \<Rightarrow> string"
  findRelevantSchema :: "string \<Rightarrow> error option"
  generateContent :: "string \<Rightarrow> string \<Rightarrow> error + string"

record exec_options =
  maxResults :: "int option"

text \<open>
  The text a template literal gives for an integer-valued number: all its decimal digits
  when it is a safe integer (magnitude at most \<open>2^53 - 1\<close>). Beyond that JavaScript prints
  the shortest digits that identify the floating-point value, with an exponent from
  \<open>10^21\<close> on; that text is taken from the world.
\<close>

fun nat_to_string :: "nat \<Rightarrow> string" where
  "nat_to_string n =
     (if n < 10 then [''0123456789'' ! n]
      else nat_to_string (n div 10) @ [''0123456789'' ! (n mod 10)])"

definition number_to_string :: "world \<Rightarrow> int \<Rightarrow> string" where
  "number_to_string w i =
     (if \<bar>i\<bar> \<le> 9007199254740991
      then (if i < 0 then CHR ''-'' # nat_to_string (nat (- i)) else nat_to_string (nat i))
      else numberText w i)"

section \<open>executeWithTimeout\<close>

text \<open>
  The result is the settlement of the returned promise, with the state of the pool at
  that moment. When the timer fires first, the promise rejects with the timeout error
  while the driver call is still pending; what the pending call does afterwards is not
  part of the model. \<open>options\<close> is a parameter of the source function that its body
  never reads.
\<close>

definition finalSQL :: "world \<Rightarrow> config \<Rightarrow> string \<Rightarrow> string" where
  "finalSQL w cfg sql =
     (if maxResultRows cfg \<noteq> 0 \<and> \<not> includes_str (toUpperCase sql) ''LIMIT''
      then sql @ '' LIMIT '' @ number_to_string w (maxResultRows cfg)
      else sql)"

definition timeoutSQL :: "world \<Rightarrow> config \<Rightarrow> string" where
  "timeoutSQL w cfg = ''SET statement_timeout = '' @ number_to_string w (queryTimeout cfg)"

definition timeoutError :: "world \<Rightarrow> config \<Rightarrow> error" where
  "timeoutError w cfg = QueryTimeout (number_to_string w (queryTimeout cfg))"

definition record_event :: "event \<Rightarrow> db_state \<Rightarrow> db_state" where
  "record_event e st = st\<lparr>log := log st @ [e]\<rparr>"

definition executeWithTimeout ::
  "config \<Rightarrow> world \<Rightarrow> string \<Rightarrow> exec_options \<Rightarrow> db_state \<Rightarrow> (error + query_result) \<times> db_state"
where
  "executeWithTimeout cfg w sql options st =
     (case connect w (log st) of
        TimesOut \<Rightarrow> (Inl (timeoutError w cfg), st)
      | Throws m \<Rightarrow> (Inl (DriverError m), st)
      | Completes client \<Rightarrow>
          let st1 = record_event Acquired (st\<lparr>held := Suc (held st)\<rparr>);
              st2 = record_event (Sent (timeoutSQL w cfg)) st1
          in (case query w (log st1) (timeoutSQL w cfg) of
                TimesOut \<Rightarrow> (Inl (timeoutError w cfg), st2)
              | Throws m \<Rightarrow> (Inl (DriverError m), st2)
              | Completes ok \<Rightarrow>
                  let st3 = record_event (Sent (finalSQL w cfg sql)) st2
                  in (case query w (log st2) (finalSQL w cfg sql) of
                        TimesOut \<Rightarrow> (Inl (timeoutError w cfg), st3)
                      | Throws m \<Rightarrow> (Inl (DriverError m), st3)
                      | Completes result \<Rightarrow>
                          (Inr result,
                           record_event Released (st3\<lparr>held := held st3 - 1\<rparr>)))))"

section \<open>formatSQL and executeQuery\<close>

text \<open>
  \<open>format\<close> is the formatter of the \<open>sql-formatter\<close> package with the options of
  \<open>formatSQL\<close>; it returns the formatted text or throws. Every function below returns
  \<open>Inl\<close> for an exception that leaves it and \<open>Inr\<close> for a value it returns, so that a
  \<open>try\<close>/\<open>catch\<close> is a case distinction on the result of the \<open>try\<close> block.
\<close>

definition formatSQL :: "world \<Rightarrow> string \<Rightarrow> error + string" where
  "formatSQL w sql = (case format w sql of Inr formatted \<Rightarrow> Inr formatted | Inl e \<Rightarrow> Inr sql)"

record execution_result =
  success :: bool
  data :: "row list option"
  columns :: "column list option"
  resultRowCount :: "int option"
  error :: "string option"
  executionTime :: int
  result_sql :: string
  executed_at :: string
  sandbox_mode :: bool

definition columns_of :: "query_result \<Rightarrow> column list" where
  "columns_of result =
     (case result_fields result of
        Some fs \<Rightarrow> map (\<lambda>field. Column (name field) (dataTypeID field) (nullable field)) fs
      | None \<Rightarrow> [])"

definition executeQuery_try ::
  "config \<Rightarrow> world \<Rightarrow> int \<Rightarrow> string \<Rightarrow> exec_options \<Rightarrow> db_state
     \<Rightarrow> (error + execution_result) \<times> db_state"
where
  "executeQuery_try cfg w startTime sql options st =
     (let st0 = record_event (Validated sql) st in
      case validateQuerySafety sql of
        Inl e \<Rightarrow> (Inl e, st0)
      | Inr u \<Rightarrow>
     (case formatSQL w sql of
        Inl e \<Rightarrow> (Inl e, st0)
      | Inr formattedSQL \<Rightarrow>
     (case executeWithTimeout cfg w formattedSQL options st0 of
        (Inl e, st1) \<Rightarrow> (Inl e, st1)
      | (Inr result, st1) \<Rightarrow>
          (Inr \<lparr> success = True,
                 data = Some (rows result),
                 columns = Some (columns_of result),
                 resultRowCount = Some (rowCount result),
                 error = None,
                 executionTime = now w (log st1) - startTime,
                 result_sql = formattedSQL,
                 executed_at = toISOString w (log st1),
                 sandbox_mode = sandboxMode cfg \<rparr>, st1))))"

definition executeQuery_catch ::
  "config \<Rightarrow> world \<Rightarrow> int \<Rightarrow> string \<Rightarrow> error \<Rightarrow> db_state
     \<Rightarrow> (error + execution_result) \<times> db_state"
where
  "executeQuery_catch cfg w startTime sql err st =
     (case formatSQL w sql of
        Inl e \<Rightarrow> (Inl e, st)
      | Inr formattedSQL \<Rightarrow>
          (Inr \<lparr> success = False,
                 data = None,
                 columns = None,
                 resultRowCount = None,
                 error = Some (message err),
                 executionTime = now w (log st) - startTime,
                 result_sql = formattedSQL,
                 executed_at = toISOString w (log st),
                 sandbox_mode = sandboxMode cfg \<rparr>, st))"

definition executeQuery ::
  "config \<Rightarrow> world \<Rightarrow> string \<Rightarrow> exec_options \<Rightarrow> db_state
     \<Rightarrow> (error + execution_result) \<times> db_state"
where
  "executeQuery cfg w sql options st =
     (let startTime = now w (log st) in
      case executeQuery_try cfg w startTime sql options st of
        (Inr r, st1) \<Rightarrow> (Inr r, st1)
      | (Inl err, st1) \<Rightarrow> executeQuery_catch cfg w startTime sql err st1)"

section \<open>validateSyntax and estimateQueryCost\<close>

text \<open>
  Both call \<open>executeWithTimeout\<close> without options. \<open>validateSyntax\<close> catches every
  error; the \<open>code\<close> of the driver's error, which it copies into its result, is not
  modelled.

  \<open>estimateQueryCost\<close> reads \<open>result.rows[0]['QUERY PLAN'][0]\<close> and then the members
  \<open>Total Cost\<close> and \<open>Plan Rows\<close> of that plan. \<open>get_property v key\<close> is the read
  \<open>v[key]\<close> for the keys the source uses (\<open>0\<close> and the three names): it throws a
  \<open>TypeError\<close>, with the message of Node.js, when \<open>v\<close> is \<open>undefined\<close> or \<open>null\<close>, and
  gives \<open>undefined\<close> for a member that is not there. Every error is rethrown as
  \<open>Cost estimation failed\<close>. The quotient \<open>costPerRow\<close> is a floating-point value and
  is not modelled; the estimate keeps the two values it is computed from.
\<close>

definition no_options :: exec_options where
  "no_options = \<lparr> maxResults = None \<rparr>"









section \<open>The language model service\<close>










section \<open>processQuery\<close>






section \<open>Example worlds\<close>

text \<open>
  Concrete surroundings for the examples: a pool that always hands out a client, an engine
  whose answer depends on the statement only, a clock that ticks once per event, and a
  language model that gives one answer. The numbers of the examples are small, so
  \<open>numberText\<close> is never consulted. \<open>example_format\<close> gives what \<open>sql-formatter\<close> returns
  for the statements used below (keywords in upper case, one clause per line) and throws
  otherwise. \<open>explain_ok\<close> is an engine that answers an EXPLAIN with a plan in the
  layout of PostgreSQL, as JSON or as text, and any other statement with no rows.
\<close>

definition empty_result :: query_result where
  "empty_result = \<lparr> rows = [], result_fields = Some [], rowCount = 0 \<rparr>"

definition test_world ::
  "(string \<Rightarrow> error + string) \<Rightarrow> (string \<Rightarrow> query_result outcome) \<Rightarrow> string \<Rightarrow> world" where
  "test_world fmt answer response =
     \<lparr> connect = (\<lambda>h. Completes ()),
       query = (\<lambda>h. answer),
       format = fmt,
       now = (\<lambda>h. int (length h)),
       toISOString = (\<lambda>h. ''2024-01-01T12:00:00.000Z''),
       numberText = (\<lambda>i. []),
       findRelevantSchema = (\<lambda>q. None),
       generateContent = (\<lambda>q lang. Inr response) \<rparr>"

definition format_throws :: "string \<Rightarrow> error + string" where
  "format_throws s = Inl (DriverError ''Parse error'')"

definition example_format :: "string \<Rightarrow> error + string" where
  "example_format s =
     (if s = ''select id from customers''
      then Inr (''SELECT\<newline>  id\<newline>FROM\<newline>  customers'')
      else if s = ''SELECT * FROM customers''
      then Inr (''SELECT\<newline>  *\<newline>FROM\<newline>  customers'')
      else if s = ''SELECT * FROM customers LIMIT 5''
      then Inr (''SELECT\<newline>  *\<newline>FROM\<newline>  customers\<newline>LIMIT\<newline>  5'')
      else if s = ''SELECT * FROM pg_user''
      then Inr (''SELECT\<newline>  *\<newline>FROM\<newline>  pg_user'')
      else Inl (DriverError ''Parse error''))"

definition always_ok :: "string \<Rightarrow> query_result outcome" where
  "always_ok s = Completes empty_result"

definition table_missing :: "string \<Rightarrow> query_result outcome" where
  "table_missing s =
     (if startsWith s ''SET '' then Completes empty_result else Throws ''Table does not exist'')"




definition default_config :: config where
  "default_config =
     constructor \<lparr> MAX_RESULT_ROWS = None, QUERY_TIMEOUT_MS = None, SANDBOX_MODE = None \<rparr>"

definition idle :: db_state where
  "idle = \<lparr> held = 0, log = [] \<rparr>"


section \<open>Properties of the validator\<close>

subsection \<open>String helpers\<close>

lemma startsWith_iff: "startsWith s p \<longleftrightarrow> (\<exists>b. s = p @ b)"
  by (induction s p rule: startsWith.induct) auto

lemma includes_str_iff: "includes_str s p \<longleftrightarrow> (\<exists>a b. s = a @ p @ b)"
proof (induction s)
  case Nil
  then show ?case by simp
next
  case (Cons c cs)
  show ?case
  proof
    assume "includes_str (c # cs) p"
    then consider "startsWith (c # cs) p" | "includes_str cs p" by auto
    then show "\<exists>a b. c # cs = a @ p @ b"
    proof cases
      case 1
      then obtain b where "c # cs = p @ b" by (auto simp: startsWith_iff)
      then have "c # cs = [] @ p @ b" by simp
      then show ?thesis by blast
    next
      case 2
      then obtain a b where "cs = a @ p @ b" using Cons.IH by blast
      then have "c # cs = (c # a) @ p @ b" by simp
      then show ?thesis by blast
    qed
  next
    assume "\<exists>a b. c # cs = a @ p @ b"
    then obtain a b where ab: "c # cs = a @ p @ b" by blast
    show "includes_str (c # cs) p"
    proof (cases a)
      case Nil
      then have "startsWith (c # cs) p" using ab by (auto simp: startsWith_iff)
      then show ?thesis by simp
    next
      case (Cons a0 as)
      then have "cs = as @ p @ b" using ab by simp
      then have "includes_str cs p" using Cons.IH by blast
      then show ?thesis by simp
    qed
  qed
qed

lemma upper_char_not_lower: "upper_char c \<notin> set ''abcdefghijklmnopqrstuvwxyz''"
proof (cases "map_of (zip ''abcdefghijklmnopqrstuvwxyz'' ''ABCDEFGHIJKLMNOPQRSTUVWXYZ'') c")
  case None
  have "length ''abcdefghijklmnopqrstuvwxyz'' = length ''ABCDEFGHIJKLMNOPQRSTUVWXYZ''" by simp
  from map_of_zip_is_None [OF this] None
  have "c \<notin> set ''abcdefghijklmnopqrstuvwxyz''" by blast
  moreover have "upper_char c = c" unfolding upper_char_def None by simp
  ultimately show ?thesis by simp
next
  case (Some u)
  then have "(c, u) \<in> set (zip ''abcdefghijklmnopqrstuvwxyz'' ''ABCDEFGHIJKLMNOPQRSTUVWXYZ'')"
    by (rule map_of_SomeD)
  then have "u \<in> set ''ABCDEFGHIJKLMNOPQRSTUVWXYZ''" by (rule set_zip_rightD)
  then have "u \<notin> set ''abcdefghijklmnopqrstuvwxyz''" by auto
  moreover have "upper_char c = u" unfolding upper_char_def Some by simp
  ultimately show ?thesis by simp
qed

lemma set_trim: "x \<in> set (trim s) \<Longrightarrow> x \<in> set s"
  unfolding trim_def by (auto dest!: set_dropWhileD)


lemma upperSQL_no_lower:
  assumes "c \<in> set p" and "c \<in> set ''abcdefghijklmnopqrstuvwxyz''"
  shows "\<not> includes_str (trim (toUpperCase s)) p"
proof
  assume "includes_str (trim (toUpperCase s)) p"
  then obtain a b where "trim (toUpperCase s) = a @ p @ b" by (auto simp: includes_str_iff)
  then have "c \<in> set (trim (toUpperCase s))" using assms(1) by simp
  then have "c \<in> set (toUpperCase s)" by (rule set_trim)
  then obtain d where "c = upper_char d" by (auto simp: toUpperCase_def)
  then show False using upper_char_not_lower assms(2) by blast
qed

lemma find_systemTables: "find (includes_str (trim (toUpperCase s))) systemTables = None"
proof -
  have "\<not> includes_str (trim (toUpperCase s)) p" if "p \<in> set systemTables" for p
  proof -
    have "CHR ''s'' \<in> set p \<or> CHR ''p'' \<in> set p" using that by (auto simp: systemTables_def)
    then show ?thesis using upperSQL_no_lower by fastforce
  qed
  then show ?thesis by (simp add: find_None_iff)
qed

lemma find_dangerousFunctions:
  "find (includes_str (trim (toUpperCase s))) dangerousFunctions = None"
proof -
  have "\<not> includes_str (trim (toUpperCase s)) p" if "p \<in> set dangerousFunctions" for p
  proof -
    have "CHR ''o'' \<in> set p \<or> CHR ''p'' \<in> set p"
      using that by (auto simp: dangerousFunctions_def)
    then show ?thesis using upperSQL_no_lower by fastforce
  qed
  then show ?thesis by (simp add: find_None_iff)
qed

lemma validateQuerySafety_reduced:
  "validateQuerySafety sql =
     (case find (includes_str (trim (toUpperCase sql))) dangerousKeywords of
        Some keyword \<Rightarrow> Inl (DangerousOperation keyword)
      | None \<Rightarrow>
          if includes_str (trim (toUpperCase sql)) ''COPY''
             \<or> includes_str (trim (toUpperCase sql)) (CHR 0x5C # ''COPY'')
          then Inl FileSystemAccess
          else if \<not> startsWith (trim (toUpperCase sql)) ''SELECT'' then Inl NotASelect
          else if containsDangerousSubquery sql then Inl DangerousSubquery
          else Inr ())"
  unfolding validateQuerySafety_def Let_def find_systemTables find_dangerousFunctions
  by (simp split: option.splits)




subsection \<open>Dangerous keywords\<close>



subsection \<open>The lower-case deny lists\<close>

text \<open>
  \<open>systemTables\<close> and \<open>dangerousFunctions\<close> are written in lower case and searched in
  the upper-cased text, so neither loop can ever throw.
\<close>

lemma no_SystemTableAccess: "validateQuerySafety sql \<noteq> Inl (SystemTableAccess t)"
  by (simp add: validateQuerySafety_reduced split: option.splits)

lemma no_DangerousFunction: "validateQuerySafety sql \<noteq> Inl (DangerousFunction f)"
  by (simp add: validateQuerySafety_reduced split: option.splits)

text \<open>
  Claim C1. The claim is that every SQL string referencing \<open>pg_read_file\<close>,
  \<open>pg_ls_dir\<close>, \<open>lo_import\<close> or \<open>lo_export\<close> is rejected with \<open>DangerousFunction\<close>.
  On the code each of the four calls below passes every check of the validator.
\<close>

theorem dangerous_function_accepted:
  "validateQuerySafety ''SELECT pg_read_file('/etc/passwd')'' = Inr ()
   \<and> validateQuerySafety ''SELECT pg_ls_dir('/')'' = Inr ()
   \<and> validateQuerySafety ''SELECT lo_import('/etc/passwd')'' = Inr ()
   \<and> validateQuerySafety ''SELECT lo_export(1, '/tmp/x')'' = Inr ()"
  by code_simp

text \<open>
  Claim C2. The claim is that every SQL string containing \<open>pg_\<close>,
  \<open>information_schema\<close> or \<open>sys.\<close> is rejected with \<open>SystemTableAccess\<close>. On the code
  \<open>SELECT pg_backend_pid()\<close> is accepted, and \<open>SELECT * FROM pg_user\<close> is rejected only
  by the later subquery pattern, as \<open>DangerousSubquery\<close>.
\<close>

theorem system_table_not_reported:
  "validateQuerySafety ''SELECT pg_backend_pid()'' = Inr ()
   \<and> validateQuerySafety ''SELECT * FROM pg_user'' = Inl DangerousSubquery"
  by code_simp

subsection \<open>Statements that are not SELECT\<close>





section \<open>Properties of the executor\<close>

subsection \<open>What executeWithTimeout does to the pool\<close>

lemma default_config_simps:
  "maxResultRows default_config = 10000"
  "queryTimeout default_config = 30000"
  "sandboxMode default_config = False"
  by (simp_all add: default_config_def constructor_def parseInt_or_def)

lemma timeoutSQL_default: "timeoutSQL w default_config = ''SET statement_timeout = 30000''"
  by (simp add: timeoutSQL_def default_config_simps number_to_string_def)

lemma finalSQL_default:
  "\<not> includes_str (toUpperCase s) ''LIMIT'' \<Longrightarrow> finalSQL w default_config s = s @ '' LIMIT 10000''"
  by (simp add: finalSQL_def default_config_simps number_to_string_def)

lemma executeWithTimeout_always_ok:
  "executeWithTimeout cfg (test_world fmt always_ok g) s opts st =
     (Inr empty_result,
      st\<lparr>log := log st @ [Acquired, Sent (timeoutSQL (test_world fmt always_ok g) cfg),
                          Sent (finalSQL (test_world fmt always_ok g) cfg s), Released]\<rparr>)"
  by (simp add: executeWithTimeout_def test_world_def always_ok_def record_event_def)

lemma executeWithTimeout_log:
  "log (snd (executeWithTimeout cfg w s opts st)) \<in>
     {log st,
      log st @ [Acquired, Sent (timeoutSQL w cfg)],
      log st @ [Acquired, Sent (timeoutSQL w cfg), Sent (finalSQL w cfg s)],
      log st @ [Acquired, Sent (timeoutSQL w cfg), Sent (finalSQL w cfg s), Released]}"
  by (simp add: executeWithTimeout_def record_event_def Let_def split: outcome.splits)

lemma executeWithTimeout_resolved:
  assumes "fst (executeWithTimeout cfg w s opts st) = Inr r"
  shows "log (snd (executeWithTimeout cfg w s opts st)) =
           log st @ [Acquired, Sent (timeoutSQL w cfg), Sent (finalSQL w cfg s), Released]
         \<and> held (snd (executeWithTimeout cfg w s opts st)) = held st"
  using assms
  by (simp add: executeWithTimeout_def record_event_def Let_def split: outcome.splits)

lemma executeWithTimeout_options:
  "executeWithTimeout cfg w s opts st = executeWithTimeout cfg w s opts' st"
  by (simp add: executeWithTimeout_def)

subsection \<open>LIMIT injection\<close>

text \<open>
  Claim C10. Whether a LIMIT is injected is a pure substring test: when the uppercased
  text contains \<open>LIMIT\<close> anywhere, also inside an identifier such as \<open>limit_value\<close>,
  the statement is left as it is, and the only statements \<open>executeWithTimeout\<close> hands to
  the driver are the timeout setting and the text itself, with no row bound.
\<close>

theorem limit_substring_test:
  assumes "includes_str (toUpperCase s) ''LIMIT''"
  shows "finalSQL w cfg s = s
         \<and> log (snd (executeWithTimeout cfg w s opts st)) \<in>
             {log st,
              log st @ [Acquired, Sent (timeoutSQL w cfg)],
              log st @ [Acquired, Sent (timeoutSQL w cfg), Sent s],
              log st @ [Acquired, Sent (timeoutSQL w cfg), Sent s, Released]}"
proof -
  have f: "finalSQL w cfg s = s" using assms by (simp add: finalSQL_def)
  show ?thesis using executeWithTimeout_log [of cfg w s opts st] unfolding f by simp
qed

theorem limit_substring_test_witness:
  "includes_str (toUpperCase ''SELECT limit_value FROM t'') ''LIMIT''
   \<and> finalSQL (test_world format_throws always_ok []) default_config
         ''SELECT limit_value FROM t'' = ''SELECT limit_value FROM t''
   \<and> log (snd (executeWithTimeout default_config (test_world format_throws always_ok [])
                ''SELECT limit_value FROM t'' no_options idle))
       = [Acquired, Sent ''SET statement_timeout = 30000'', Sent ''SELECT limit_value FROM t'',
          Released]"
proof -
  have h: "includes_str (toUpperCase ''SELECT limit_value FROM t'') ''LIMIT''" by code_simp
  have f: "finalSQL w default_config ''SELECT limit_value FROM t'' = ''SELECT limit_value FROM t''" for w
    using limit_substring_test [OF h] by blast
  have "log (snd (executeWithTimeout default_config (test_world format_throws always_ok [])
                ''SELECT limit_value FROM t'' no_options idle))
       = [Acquired, Sent ''SET statement_timeout = 30000'', Sent ''SELECT limit_value FROM t'',
          Released]"
    by (simp add: executeWithTimeout_always_ok timeoutSQL_default f idle_def)
  with h f show ?thesis by blast
qed

text \<open>
  Claim C5. The claim is that \<open>options.maxResults\<close> is the bound of the injected LIMIT,
  so that \<open>maxResults: 50\<close> gives \<open>LIMIT 50\<close>. The code never reads \<open>options\<close>: with
  the default configuration the statement sent ends in \<open>LIMIT 10000\<close>.
\<close>

theorem maxResults_ignored:
  "log (snd (executeWithTimeout default_config (test_world example_format always_ok [])
               ''SELECT * FROM customers'' \<lparr> maxResults = Some 50 \<rparr> idle))
     = [Acquired, Sent ''SET statement_timeout = 30000'',
        Sent ''SELECT * FROM customers LIMIT 10000'', Released]"
proof -
  have "\<not> includes_str (toUpperCase ''SELECT * FROM customers'') ''LIMIT''" by code_simp
  then have "finalSQL w default_config ''SELECT * FROM customers''
               = ''SELECT * FROM customers LIMIT 10000''" for w
    by (simp add: finalSQL_default)
  then show ?thesis
    by (simp add: executeWithTimeout_always_ok timeoutSQL_default idle_def)
qed

subsection \<open>Release of the connection\<close>

text \<open>
  Claim C4. The claim is that the connection is released on every exit path. When the
  driver rejects the statement (here a missing table), \<open>executeWithTimeout\<close> rejects with
  the client still checked out and no release in the history.
\<close>

theorem connection_leaked_on_error:
  "executeWithTimeout default_config (test_world format_throws table_missing [])
      ''SELECT * FROM nonexistent_table'' no_options idle
     = (Inl (DriverError ''Table does not exist''),
        \<lparr> held = 1,
          log = [Acquired, Sent ''SET statement_timeout = 30000'',
                 Sent ''SELECT * FROM nonexistent_table LIMIT 10000''] \<rparr>)"
proof -
  have "\<not> includes_str (toUpperCase ''SELECT * FROM nonexistent_table'') ''LIMIT''"
    by code_simp
  then have "finalSQL w default_config ''SELECT * FROM nonexistent_table''
               = ''SELECT * FROM nonexistent_table LIMIT 10000''" for w
    by (simp add: finalSQL_default)
  then show ?thesis
    by (simp add: executeWithTimeout_def test_world_def table_missing_def record_event_def
        timeoutSQL_default idle_def)
qed

subsection \<open>The three ways executeQuery ends\<close>

lemma formatSQL_returns:
  "formatSQL w s = Inr (case format w s of Inr f \<Rightarrow> f | Inl e \<Rightarrow> s)"
  by (simp add: formatSQL_def split: sum.splits)

lemma executeQuery_rejected:
  assumes "validateQuerySafety s = Inl e"
  shows "\<exists>r. executeQuery cfg w s opts st = (Inr r, record_event (Validated s) st)
             \<and> success r = False \<and> error r = Some (message e)
             \<and> result_sql r = (case format w s of Inr f \<Rightarrow> f | Inl e \<Rightarrow> s)
             \<and> executionTime r = now w (log (record_event (Validated s) st)) - now w (log st)"
  using assms
  by (simp add: executeQuery_def executeQuery_try_def executeQuery_catch_def formatSQL_returns
      Let_def)

lemma executeQuery_failed:
  assumes "validateQuerySafety s = Inr ()"
    and "executeWithTimeout cfg w (case format w s of Inr f \<Rightarrow> f | Inl e \<Rightarrow> s) opts
           (record_event (Validated s) st) = (Inl e, st1)"
  shows "\<exists>r. executeQuery cfg w s opts st = (Inr r, st1)
             \<and> success r = False \<and> error r = Some (message e)
             \<and> result_sql r = (case format w s of Inr f \<Rightarrow> f | Inl e \<Rightarrow> s)
             \<and> executionTime r = now w (log st1) - now w (log st)"
  using assms
  by (simp add: executeQuery_def executeQuery_try_def executeQuery_catch_def formatSQL_returns
      Let_def)

lemma executeQuery_succeeded:
  assumes "validateQuerySafety s = Inr ()"
    and "executeWithTimeout cfg w (case format w s of Inr f \<Rightarrow> f | Inl e \<Rightarrow> s) opts
           (record_event (Validated s) st) = (Inr res, st1)"
  shows "\<exists>r. executeQuery cfg w s opts st = (Inr r, st1)
             \<and> success r = True \<and> error r = None \<and> data r = Some (rows res)
             \<and> result_sql r = (case format w s of Inr f \<Rightarrow> f | Inl e \<Rightarrow> s)
             \<and> executionTime r = now w (log st1) - now w (log st)"
  using assms
  by (simp add: executeQuery_def executeQuery_try_def executeQuery_catch_def formatSQL_returns
      Let_def)

lemma nonexistent_table_fails:
  "executeWithTimeout default_config (test_world fmt table_missing g)
      ''SELECT * FROM nonexistent_table'' opts st
     = (Inl (DriverError ''Table does not exist''),
        st\<lparr>held := Suc (held st),
           log := log st @ [Acquired, Sent ''SET statement_timeout = 30000'',
                            Sent ''SELECT * FROM nonexistent_table LIMIT 10000'']\<rparr>)"
proof -
  have "\<not> includes_str (toUpperCase ''SELECT * FROM nonexistent_table'') ''LIMIT''"
    by code_simp
  then have "finalSQL w default_config ''SELECT * FROM nonexistent_table''
               = ''SELECT * FROM nonexistent_table LIMIT 10000''" for w
    by (simp add: finalSQL_default)
  then show ?thesis
    by (simp add: executeWithTimeout_def test_world_def table_missing_def record_event_def
        timeoutSQL_default)
qed

lemma format_throws_formatSQL: "formatSQL (test_world format_throws answer g) s = Inr s"
  by (simp add: formatSQL_def test_world_def format_throws_def)

lemma executeQuery_log_accepted:
  assumes "validateQuerySafety s = Inr ()"
  shows "log (snd (executeQuery cfg w s opts st)) =
           log (snd (executeWithTimeout cfg w (case format w s of Inr f \<Rightarrow> f | Inl e \<Rightarrow> s) opts
                       (record_event (Validated s) st)))"
proof -
  obtain res st1 where x:
    "executeWithTimeout cfg w (case format w s of Inr f \<Rightarrow> f | Inl e \<Rightarrow> s) opts
       (record_event (Validated s) st) = (res, st1)"
    by (cases "executeWithTimeout cfg w (case format w s of Inr f \<Rightarrow> f | Inl e \<Rightarrow> s) opts
       (record_event (Validated s) st)")
  show ?thesis
  proof (cases res)
    case (Inl e)
    from executeQuery_failed [OF assms x [unfolded Inl]] show ?thesis using x by auto
  next
    case (Inr result)
    from executeQuery_succeeded [OF assms x [unfolded Inr]] show ?thesis using x by auto
  qed
qed

subsection \<open>Failures are returned, not thrown\<close>

text \<open>
  Claim C8. For every SQL string, options, world and pool state, \<open>executeQuery\<close>
  returns a result object and never throws. The object carries the execution time; when
  the validator rejects the statement, or when \<open>executeWithTimeout\<close> fails (driver error
  or timeout), it has \<open>success = False\<close> and the message of that error.
\<close>

theorem executeQuery_never_throws:
  "\<exists>r. fst (executeQuery cfg w s opts st) = Inr r
       \<and> executionTime r = now w (log (snd (executeQuery cfg w s opts st))) - now w (log st)
       \<and> (\<forall>e. validateQuerySafety s = Inl e \<longrightarrow> success r = False \<and> error r = Some (message e))
       \<and> (\<forall>e f. validateQuerySafety s = Inr () \<and> formatSQL w s = Inr f
                \<and> fst (executeWithTimeout cfg w f opts (record_event (Validated s) st)) = Inl e
              \<longrightarrow> success r = False \<and> error r = Some (message e))"
proof (cases "validateQuerySafety s")
  case (Inl e)
  from executeQuery_rejected [OF Inl, of cfg w opts st] obtain r where
    "executeQuery cfg w s opts st = (Inr r, record_event (Validated s) st)"
    "success r = False" "error r = Some (message e)"
    "executionTime r = now w (log (record_event (Validated s) st)) - now w (log st)"
    by blast
  then show ?thesis using Inl by auto
next
  case (Inr u)
  then have ok: "validateQuerySafety s = Inr ()" by simp
  obtain res st1 where x:
    "executeWithTimeout cfg w (case format w s of Inr f \<Rightarrow> f | Inl e \<Rightarrow> s) opts
       (record_event (Validated s) st) = (res, st1)"
    by (cases "executeWithTimeout cfg w (case format w s of Inr f \<Rightarrow> f | Inl e \<Rightarrow> s) opts
       (record_event (Validated s) st)") 
  show ?thesis
  proof (cases res)
    case (Inl e)
    from executeQuery_failed [OF ok x [unfolded Inl]] obtain r where
      "executeQuery cfg w s opts st = (Inr r, st1)"
      "success r = False" "error r = Some (message e)"
      "executionTime r = now w (log st1) - now w (log st)"
      by blast
    then show ?thesis using ok x Inl by (auto simp: formatSQL_returns)
  next
    case (Inr result)
    from executeQuery_succeeded [OF ok x [unfolded Inr]] obtain r where
      "executeQuery cfg w s opts st = (Inr r, st1)"
      "executionTime r = now w (log st1) - now w (log st)"
      by blast
    then show ?thesis using ok x Inr by (auto simp: formatSQL_returns)
  qed
qed

theorem executeQuery_never_throws_witness:
  "validateQuerySafety ''DELETE FROM customers'' = Inl (DangerousOperation ''DELETE'')
   \<and> (\<exists>r. fst (executeQuery default_config (test_world format_throws always_ok [])
                  ''DELETE FROM customers'' no_options idle) = Inr r
          \<and> success r = False
          \<and> error r = Some ''Dangerous operation detected: DELETE statements are not allowed'')
   \<and> validateQuerySafety ''SELECT * FROM nonexistent_table'' = Inr ()
   \<and> (\<exists>r. fst (executeQuery default_config (test_world format_throws table_missing [])
                  ''SELECT * FROM nonexistent_table'' no_options idle) = Inr r
          \<and> success r = False
          \<and> error r = Some ''Table does not exist'')"
proof -
  have v1: "validateQuerySafety ''DELETE FROM customers'' = Inl (DangerousOperation ''DELETE'')"
    by code_simp
  have v2: "validateQuerySafety ''SELECT * FROM nonexistent_table'' = Inr ()"
    by code_simp
  have x: "fst (executeWithTimeout default_config (test_world format_throws table_missing [])
                  ''SELECT * FROM nonexistent_table'' no_options
                  (record_event (Validated ''SELECT * FROM nonexistent_table'') idle))
             = Inl (DriverError ''Table does not exist'')"
    by (simp add: nonexistent_table_fails)
  from executeQuery_never_throws
         [of default_config "test_world format_throws always_ok []" "''DELETE FROM customers''"
             no_options idle] v1
  have a: "\<exists>r. fst (executeQuery default_config (test_world format_throws always_ok [])
                  ''DELETE FROM customers'' no_options idle) = Inr r
          \<and> success r = False
          \<and> error r = Some ''Dangerous operation detected: DELETE statements are not allowed''"
    by auto
  from executeQuery_never_throws
         [of default_config "test_world format_throws table_missing []"
             "''SELECT * FROM nonexistent_table''" no_options idle]
       v2 x format_throws_formatSQL
  have b: "\<exists>r. fst (executeQuery default_config (test_world format_throws table_missing [])
                  ''SELECT * FROM nonexistent_table'' no_options idle) = Inr r
          \<and> success r = False
          \<and> error r = Some ''Table does not exist''"
    by fastforce
  from v1 a v2 b show ?thesis by blast
qed

subsection \<open>The text that is executed\<close>

lemma executeQuery_sends_formatted:
  "\<exists>F r. formatSQL w s = Inr F
     \<and> (\<forall>e. format w s = Inl e \<longrightarrow> F = s)
     \<and> (\<forall>f. format w s = Inr f \<longrightarrow> F = f)
     \<and> fst (executeQuery cfg w s opts st) = Inr r
     \<and> result_sql r = F
     \<and> log (snd (executeQuery cfg w s opts st)) \<in>
         {log st @ [Validated s],
          log st @ [Validated s, Acquired, Sent (timeoutSQL w cfg)],
          log st @ [Validated s, Acquired, Sent (timeoutSQL w cfg), Sent (finalSQL w cfg F)],
          log st @ [Validated s, Acquired, Sent (timeoutSQL w cfg), Sent (finalSQL w cfg F),
                    Released]}
     \<and> (success r \<longrightarrow>
          log (snd (executeQuery cfg w s opts st)) =
            log st @ [Validated s, Acquired, Sent (timeoutSQL w cfg), Sent (finalSQL w cfg F),
                      Released])"
proof -
  define F where "F = (case format w s of Inr f \<Rightarrow> f | Inl e \<Rightarrow> s)"
  have fs: "formatSQL w s = Inr F" by (simp add: F_def formatSQL_returns)
  have f1: "\<forall>e. format w s = Inl e \<longrightarrow> F = s" by (simp add: F_def)
  have f2: "\<forall>f. format w s = Inr f \<longrightarrow> F = f" by (simp add: F_def)
  let ?st0 = "record_event (Validated s) st"
  have l0: "log ?st0 = log st @ [Validated s]" by (simp add: record_event_def)
  show ?thesis
  proof (cases "validateQuerySafety s")
    case (Inl e)
    from executeQuery_rejected [OF Inl, of cfg w opts st] obtain r where
      "executeQuery cfg w s opts st = (Inr r, ?st0)" "success r = False" "result_sql r = F"
      unfolding F_def by blast
    then show ?thesis using fs f1 f2 l0 by auto
  next
    case (Inr u)
    then have ok: "validateQuerySafety s = Inr ()" by simp
    obtain res st1 where x: "executeWithTimeout cfg w F opts ?st0 = (res, st1)"
      by (cases "executeWithTimeout cfg w F opts ?st0")
    have shape: "log st1 \<in>
         {log st @ [Validated s],
          log st @ [Validated s, Acquired, Sent (timeoutSQL w cfg)],
          log st @ [Validated s, Acquired, Sent (timeoutSQL w cfg), Sent (finalSQL w cfg F)],
          log st @ [Validated s, Acquired, Sent (timeoutSQL w cfg), Sent (finalSQL w cfg F),
                    Released]}"
      using executeWithTimeout_log [of cfg w F opts ?st0] x l0 by auto
    show ?thesis
    proof (cases res)
      case (Inl e)
      from executeQuery_failed [OF ok x [unfolded F_def Inl]] obtain r where
        "executeQuery cfg w s opts st = (Inr r, st1)" "success r = False" "result_sql r = F"
        unfolding F_def by blast
      then show ?thesis using fs f1 f2 shape by auto
    next
      case (Inr result)
      have "fst (executeWithTimeout cfg w F opts ?st0) = Inr result" using x Inr by simp
      from executeWithTimeout_resolved [OF this]
      have full: "log st1 = log st @ [Validated s, Acquired, Sent (timeoutSQL w cfg),
                                     Sent (finalSQL w cfg F), Released]"
        using x l0 by simp
      from executeQuery_succeeded [OF ok x [unfolded F_def Inr]] obtain r where
        "executeQuery cfg w s opts st = (Inr r, st1)" "result_sql r = F"
        unfolding F_def by blast
      then show ?thesis using fs f1 f2 shape full by auto
    qed
  qed
qed

text \<open>
  Claim C9. The claim is that formatting is for display only and that the text submitted
  to the engine is the caller's original string, up to the appended LIMIT. The code hands
  the formatted text to \<open>executeWithTimeout\<close>: for \<open>SELECT * FROM customers LIMIT 5\<close>,
  which the formatter returns with one clause per line, the statement sent is the
  formatted text, the original is never sent, and the text sent does not contain
  \<open>LIMIT 5\<close>.
\<close>

theorem formatted_text_is_executed:
  "log (snd (executeQuery default_config (test_world example_format always_ok [])
               ''SELECT * FROM customers LIMIT 5'' no_options idle))
     = [Validated ''SELECT * FROM customers LIMIT 5'', Acquired,
        Sent ''SET statement_timeout = 30000'',
        Sent ''SELECT\<newline>  *\<newline>FROM\<newline>  customers\<newline>LIMIT\<newline>  5'',
        Released]
   \<and> Sent ''SELECT * FROM customers LIMIT 5''
       \<notin> set (log (snd (executeQuery default_config (test_world example_format always_ok [])
                          ''SELECT * FROM customers LIMIT 5'' no_options idle)))
   \<and> \<not> includes_str ''SELECT\<newline>  *\<newline>FROM\<newline>  customers\<newline>LIMIT\<newline>  5'' ''LIMIT 5''"
proof -
  have v: "validateQuerySafety ''SELECT * FROM customers LIMIT 5'' = Inr ()" by code_simp
  have "includes_str (toUpperCase ''SELECT\<newline>  *\<newline>FROM\<newline>  customers\<newline>LIMIT\<newline>  5'') ''LIMIT''"
    by code_simp
  then have f: "finalSQL w default_config ''SELECT\<newline>  *\<newline>FROM\<newline>  customers\<newline>LIMIT\<newline>  5''
           = ''SELECT\<newline>  *\<newline>FROM\<newline>  customers\<newline>LIMIT\<newline>  5''" for w
    by (simp add: finalSQL_def)
  have fm: "format (test_world example_format always_ok []) ''SELECT * FROM customers LIMIT 5''
              = Inr ''SELECT\<newline>  *\<newline>FROM\<newline>  customers\<newline>LIMIT\<newline>  5''"
    by (simp add: test_world_def example_format_def)
  have l: "log (snd (executeQuery default_config (test_world example_format always_ok [])
               ''SELECT * FROM customers LIMIT 5'' no_options idle))
     = [Validated ''SELECT * FROM customers LIMIT 5'', Acquired,
        Sent ''SET statement_timeout = 30000'',
        Sent ''SELECT\<newline>  *\<newline>FROM\<newline>  customers\<newline>LIMIT\<newline>  5'',
        Released]"
    unfolding executeQuery_log_accepted [OF v] fm
    by (simp add: executeWithTimeout_always_ok timeoutSQL_default f record_event_def idle_def)
  have n: "\<not> includes_str ''SELECT\<newline>  *\<newline>FROM\<newline>  customers\<newline>LIMIT\<newline>  5'' ''LIMIT 5''"
    by code_simp
  from l n show ?thesis by simp
qed

section \<open>Order of the pipeline\<close>

subsection \<open>Events of each step\<close>
















subsection \<open>Safety check, syntax check and execution\<close>




end
